theory Spec2Isabelle
  imports Main "HOL-Library.Word" "HOL-Library.Sublist"
begin

unbundle bit_operations_syntax

text \<open>
  Three parts of the SkyEye GCI controller: the parser of SimpleRadio voice packets, the
  control loop of the controller with its callsign lookup, and three methods of the
  composer that turn brevity responses into text. Panics are values (\<open>Inl\<close>), a run
  that does not end is \<open>None\<close>, and what a function reads from outside (the outcomes
  of a select, the clock, the random generator, methods of other packages) is an argument.
\<close>

section \<open>Voice packets (package audio)\<close>

subsection \<open>Byte slices and run-time panics\<close>

text \<open>
  A Go byte slice is a window on a backing array: it has a length and a capacity. A slice
  expression \<open>b[lo:hi]\<close> on a slice is checked against the capacity, an index
  expression \<open>b[i]\<close> against the length; both panic when the check fails. The
  record keeps the backing array from the first element of the slice to the end of its
  capacity, and the length. A slice the program can hold has \<open>slen b \<le> cap b\<close>.
\<close>

datatype panic = SliceBoundsOutOfRange | IndexOutOfRange

type_synonym byte = "8 word"

record slice =
  elems :: "byte list"
  slen :: nat

definition cap :: "slice \<Rightarrow> nat" where
  "cap b = length (elems b)"

definition nil_slice :: slice where
  "nil_slice = \<lparr>elems = [], slen = 0\<rparr>"

definition bytes :: "byte list \<Rightarrow> slice" where
  "bytes xs = \<lparr>elems = xs, slen = length xs\<rparr>"

definition bindE :: "panic + 'a \<Rightarrow> ('a \<Rightarrow> panic + 'b) \<Rightarrow> panic + 'b" where
  "bindE m f = (case m of Inl e \<Rightarrow> Inl e | Inr v \<Rightarrow> f v)"

definition sliceExpr :: "slice \<Rightarrow> nat \<Rightarrow> nat \<Rightarrow> panic + slice" where
  "sliceExpr b lo hi =
     (if lo \<le> hi \<and> hi \<le> cap b then Inr \<lparr>elems = drop lo (elems b), slen = hi - lo\<rparr>
      else Inl SliceBoundsOutOfRange)"

definition index :: "slice \<Rightarrow> nat \<Rightarrow> panic + byte" where
  "index b i = (if i < slen b then Inr (elems b ! i) else Inl IndexOutOfRange)"

subsection \<open>encoding/binary, big endian\<close>

text \<open>
  The three readers of \<open>binary.BigEndian\<close>: each first indexes the last byte it needs
  (the bounds check), then assembles the value most significant byte first.
\<close>

definition Uint16 :: "slice \<Rightarrow> panic + 16 word" where
  "Uint16 b = bindE (index b 1) (\<lambda>_.
     Inr (ucast (elems b ! 1) OR push_bit 8 (ucast (elems b ! 0))))"

definition Uint32 :: "slice \<Rightarrow> panic + 32 word" where
  "Uint32 b = bindE (index b 3) (\<lambda>_.
     Inr (ucast (elems b ! 3) OR push_bit 8 (ucast (elems b ! 2))
          OR push_bit 16 (ucast (elems b ! 1)) OR push_bit 24 (ucast (elems b ! 0))))"

definition Uint64 :: "slice \<Rightarrow> panic + 64 word" where
  "Uint64 b = bindE (index b 7) (\<lambda>_.
     Inr (ucast (elems b ! 7) OR push_bit 8 (ucast (elems b ! 6))
          OR push_bit 16 (ucast (elems b ! 5)) OR push_bit 24 (ucast (elems b ! 4))
          OR push_bit 32 (ucast (elems b ! 3)) OR push_bit 40 (ucast (elems b ! 2))
          OR push_bit 48 (ucast (elems b ! 1)) OR push_bit 56 (ucast (elems b ! 0))))"

subsection \<open>The packet\<close>

text \<open>
  \<open>math.Float64frombits\<close> is a bit cast: the frequency is kept as its 64 bits.
\<close>

record srs_Frequency =
  Frequency :: "64 word"
  Modulation :: byte
  Encryption :: byte

record VoicePacket =
  PacketLength :: "16 word"
  AudioSegmentLength :: "16 word"
  FrequenciesSegmentLength :: "16 word"
  AudioLength :: "16 word"
  AudioBytes :: slice
  Frequencies :: "srs_Frequency list"
  UnitID :: "32 word"
  PacketID :: "64 word"
  RetransmissionCount :: byte
  OriginalGUID :: slice
  GUID :: slice

text \<open>
  The composite literal that opens \<open>newVoicePacketFrom\<close>: three length headers are
  read, every other field has its zero value.
\<close>

definition headers :: "slice \<Rightarrow> panic + VoicePacket" where
  "headers b =
     bindE (sliceExpr b 0 2) (\<lambda>s0. bindE (Uint16 s0) (\<lambda>pl.
     bindE (sliceExpr b 2 4) (\<lambda>s1. bindE (Uint16 s1) (\<lambda>asl.
     bindE (sliceExpr b 4 6) (\<lambda>s2. bindE (Uint16 s2) (\<lambda>fsl.
     Inr \<lparr>PacketLength = pl, AudioSegmentLength = asl, FrequenciesSegmentLength = fsl,
          AudioLength = 0, AudioBytes = nil_slice, Frequencies = [],
          UnitID = 0, PacketID = 0, RetransmissionCount = 0,
          OriginalGUID = nil_slice, GUID = nil_slice\<rparr>))))))"

definition audioSegmentOffset :: nat where
  "audioSegmentOffset = 6"

definition audioBytesOffset :: nat where
  "audioBytesOffset = audioSegmentOffset + 2"

definition frequenciesOffset :: "VoicePacket \<Rightarrow> nat" where
  "frequenciesOffset p = audioBytesOffset + unat (AudioLength p)"

definition fixedSegmentOffset :: "nat \<Rightarrow> VoicePacket \<Rightarrow> nat" where
  "fixedSegmentOffset fo p = fo + unat (FrequenciesSegmentLength p)"

text \<open>
  The statements of \<open>newVoicePacketFrom\<close> up to the loop. The offsets are computed from
  the packet as the literal left it; then the audio length and the audio bytes are
  assigned. The result is the packet at loop entry with the two offsets the rest of the
  function uses.
\<close>

definition decodePrefix :: "slice \<Rightarrow> panic + (VoicePacket \<times> nat \<times> nat)" where
  "decodePrefix b =
     bindE (headers b) (\<lambda>p.
       let fo = frequenciesOffset p;
           fso = fixedSegmentOffset fo p
       in bindE (sliceExpr b audioSegmentOffset audioBytesOffset) (\<lambda>s.
          bindE (Uint16 s) (\<lambda>al.
          bindE (sliceExpr b audioBytesOffset fo) (\<lambda>ab.
          Inr (p\<lparr>AudioLength := al, AudioBytes := ab\<rparr>, fo, fso)))))"

text \<open>The body of the loop up to the append: one frequency record read at index \<open>i\<close>.\<close>

definition readFrequency :: "slice \<Rightarrow> nat \<Rightarrow> panic + srs_Frequency" where
  "readFrequency b i =
     bindE (sliceExpr b i (i + 8)) (\<lambda>s. bindE (Uint64 s) (\<lambda>w.
     bindE (index b (i + 8)) (\<lambda>m.
     bindE (index b (i + 9)) (\<lambda>e.
     Inr \<lparr>Frequency = w, Modulation = m, Encryption = e\<rparr>))))"

text \<open>
  The loop \<open>for i := frequenciesOffset; i <= frequenciesOffset+int(p.FrequenciesSegmentLength); { ... }\<close>.
  It has no post statement: the next iteration runs at the same \<open>i\<close>. A run that never
  leaves the loop is the value \<open>None\<close>; a panic is \<open>Some (Inl e)\<close>.
\<close>

partial_function (option) frequenciesLoop ::
  "slice \<Rightarrow> nat \<Rightarrow> nat \<Rightarrow> VoicePacket \<Rightarrow> (panic + VoicePacket) option" where
  "frequenciesLoop b fo i p =
     (if i \<le> fo + unat (FrequenciesSegmentLength p) then
        (case readFrequency b i of
           Inl e \<Rightarrow> Some (Inl e)
         | Inr frequency \<Rightarrow>
             frequenciesLoop b fo i (p\<lparr>Frequencies := Frequencies p @ [frequency]\<rparr>))
      else Some (Inr p))"

text \<open>The statements after the loop: the fixed segment.\<close>

definition fixedSegment :: "slice \<Rightarrow> nat \<Rightarrow> VoicePacket \<Rightarrow> panic + VoicePacket" where
  "fixedSegment b fso p =
     (let unitIDOffset = fso;
          packetIDOffset = unitIDOffset + 4;
          retrasmissionCountOffset = packetIDOffset + 8;
          originalGUIDOffset = retrasmissionCountOffset + 1;
          guidOffset = originalGUIDOffset + 22
      in bindE (sliceExpr b unitIDOffset packetIDOffset) (\<lambda>s0. bindE (Uint32 s0) (\<lambda>uid.
         bindE (sliceExpr b packetIDOffset retrasmissionCountOffset) (\<lambda>s1. bindE (Uint64 s1) (\<lambda>pid.
         bindE (index b retrasmissionCountOffset) (\<lambda>rc.
         bindE (sliceExpr b originalGUIDOffset guidOffset) (\<lambda>og.
         bindE (sliceExpr b guidOffset (guidOffset + 22)) (\<lambda>g.
         Inr (p\<lparr>UnitID := uid, PacketID := pid, RetransmissionCount := rc,
                OriginalGUID := og, GUID := g\<rparr>)))))))))"

definition newVoicePacketFrom :: "slice \<Rightarrow> (panic + VoicePacket) option" where
  "newVoicePacketFrom b =
     (case decodePrefix b of
        Inl e \<Rightarrow> Some (Inl e)
      | Inr (p, fo, fso) \<Rightarrow>
          (case frequenciesLoop b fo fo p of
             None \<Rightarrow> None
           | Some (Inl e) \<Rightarrow> Some (Inl e)
           | Some (Inr p') \<Rightarrow> Some (fixedSegment b fso p')))"

section \<open>The controller (package controller)\<close>

subsection \<open>What the controller works with\<close>

text \<open>
  Instants and durations are counted in nanoseconds. \<open>t.After(u)\<close> reports whether
  \<open>t\<close> is strictly later than \<open>u\<close>.
\<close>

type_synonym time = int
type_synonym Duration = int

definition Second :: Duration where
  "Second = 1000000000"

definition After :: "time \<Rightarrow> time \<Rightarrow> bool" where
  "After t u = (u < t)"

text \<open>
  Modelled from the spec: the packages coalitions, trackfiles, radar, simpleradio, brevity,
  traces and context are not among the sources. A coalition is one of red and blue. A
  trackfile has a numeric ID, a callsign, a coalition and the predicate "is last known
  point zero", kept here as the value the method returns. A \<open>unit.Frequency\<close> is a
  float64 that the controller only copies: it is kept as its 64 bits. A context is a
  numbered base context, or a context wrapped with a trace ID by \<open>traces.WithTraceID\<close>.
\<close>

datatype coalition = Red | Blue

record Trackfile =
  ID :: "64 word"
  TrackfileCallsign :: string
  TrackfileCoalition :: coalition
  IsLastKnownPointZero :: bool

type_synonym unit_Frequency = "64 word"

record RadioFrequency =
  RadioFrequency_Frequency :: unit_Frequency
  RadioFrequency_Modulation :: byte

datatype "context" = Ctx nat | WithTraceID "context" string

text \<open>
  The values sent on the outbound channel have type \<open>any\<close>. The sources build a
  \<open>brevity.SunriseCall\<close>; \<open>OtherCall\<close> stands for the values sent by the methods
  that are not among the sources.
\<close>

datatype any = SunriseCall "unit_Frequency list" | OtherCall string

record Call =
  Context :: "context"
  Call :: any

definition NewCall :: "context \<Rightarrow> any \<Rightarrow> Call" where
  "NewCall ctx call = \<lparr>Context = ctx, Call = call\<rparr>"

datatype chan = Chan nat

text \<open>
  The two method values the controller hands to the scope as callbacks. A callback slot of
  the scope holds one of them or nil.
\<close>

datatype callback = handleFaded | handleRemoved

text \<open>
  Modelled from the spec: the scope (interface \<open>radar.Radar\<close>) answers
  \<open>FindCallsign(callsign, coalition)\<close> with a canonical callsign and a trackfile or
  none, and has one slot for each of the callbacks faded, removed and started; a setter
  stores its argument in its slot.
\<close>

record Radar =
  FindCallsign :: "string \<Rightarrow> coalition \<Rightarrow> string \<times> Trackfile option"
  FadedCallback :: "callback option"
  RemovedCallback :: "callback option"
  StartedCallback :: "callback option"

definition SetFadedCallback :: "callback option \<Rightarrow> Radar \<Rightarrow> Radar" where
  "SetFadedCallback cb r = r\<lparr>FadedCallback := cb\<rparr>"

definition SetRemovedCallback :: "callback option \<Rightarrow> Radar \<Rightarrow> Radar" where
  "SetRemovedCallback cb r = r\<lparr>RemovedCallback := cb\<rparr>"

definition SetStartedCallback :: "callback option \<Rightarrow> Radar \<Rightarrow> Radar" where
  "SetStartedCallback cb r = r\<lparr>StartedCallback := cb\<rparr>"

text \<open>
  Modelled from the spec: the radio client reports its list of frequencies; a cooldown
  tracker maps an entity ID to the earliest time of the next call about it; a merge
  tracker maps a friendly ID to the hostile IDs merged with it.
\<close>

record Client =
  ClientFrequencies :: "RadioFrequency list"

type_synonym cooldownTracker = "64 word \<rightharpoonup> time"
type_synonym mergeTracker = "64 word \<rightharpoonup> 64 word list"

record controller =
  coalition :: coalition
  scope :: Radar
  srsClient :: Client
  enableAutomaticPicture :: bool
  pictureBroadcastInterval :: Duration
  pictureBroadcastDeadline :: time
  wasLastPictureClean :: bool
  enableThreatMonitoring :: bool
  threatCooldowns :: cooldownTracker
  threatMonitoringCooldown :: Duration
  threatMonitoringRequiresSRS :: bool
  merges :: mergeTracker
  calls :: "chan option"

subsection \<open>Logging\<close>

datatype log_level = DebugLevel | InfoLevel | ErrorLevel

record log_entry =
  level :: log_level
  log_fields :: "(string \<times> string) list"
  msg :: string

subsection \<open>The world the control loop acts on\<close>

text \<open>
  The controller with what it can reach: the messages accepted by channels so far (a send
  appends one; that a reader takes it is assumed, a send on the nil channel never
  completes), the log, and the number of IDs drawn from \<open>shortuuid.New\<close>.
\<close>

record world =
  ctl :: controller
  sent :: "(chan \<times> Call) list"
  logs :: "log_entry list"
  uuids_drawn :: nat

datatype Logger = GlobalLogger

text \<open>
  The methods \<open>broadcastMerges\<close>, \<open>broadcastThreats\<close> and \<open>broadcastPicture\<close> are not
  among the sources: they are parameters, each a function on the world that returns.
  \<open>shortuuid_New\<close> gives the ID of each draw.
\<close>

record env =
  shortuuid_New :: "nat \<Rightarrow> string"
  broadcastMerges :: "context \<Rightarrow> world \<Rightarrow> world"
  broadcastThreats :: "context \<Rightarrow> world \<Rightarrow> world"
  broadcastPicture :: "context \<Rightarrow> Logger \<Rightarrow> bool \<Rightarrow> world \<Rightarrow> world"

definition new_uuid :: "env \<Rightarrow> world \<Rightarrow> string \<times> world" where
  "new_uuid e w = (shortuuid_New e (uuids_drawn w), w\<lparr>uuids_drawn := Suc (uuids_drawn w)\<rparr>)"

definition log_msg :: "log_level \<Rightarrow> (string \<times> string) list \<Rightarrow> string \<Rightarrow> world \<Rightarrow> world" where
  "log_msg l fs m w = w\<lparr>logs := logs w @ [\<lparr>level = l, log_fields = fs, msg = m\<rparr>]\<rparr>"

definition send :: "Call \<Rightarrow> world \<Rightarrow> world option" where
  "send call w =
     (case calls (ctl w) of
        None \<Rightarrow> None
      | Some ch \<Rightarrow> Some (w\<lparr>sent := sent w @ [(ch, call)]\<rparr>))"

subsection \<open>broadcastSunrise\<close>



subsection \<open>Run\<close>

text \<open>
  \<open>Run\<close> blocks in a select between the cancellation of its context and the ticker. The
  outcomes of the select are the input: \<open>Done\<close>, or a tick with the instant
  \<open>time.Now()\<close> gives on that tick. When the outcomes given are used up, \<open>Run\<close> is
  still blocked in the select and has not returned.
\<close>

datatype event = Done | Tick time

record Ticker =
  period :: Duration
  stopped :: bool

definition NewTicker :: "Duration \<Rightarrow> Ticker" where
  "NewTicker d = \<lparr>period = d, stopped = False\<rparr>"

definition Stop :: "Ticker \<Rightarrow> Ticker" where
  "Stop t = t\<lparr>stopped := True\<rparr>"

text \<open>The calls of the three broadcast methods that \<open>Run\<close> makes, in the order made.\<close>

datatype invocation =
  BroadcastMerges "context"
| BroadcastThreats "context"
| BroadcastPicture "context" Logger bool

record run_state =
  world :: world
  ticker :: "Ticker option"
  invoked :: "invocation list"
  returned :: bool

definition with_scope :: "(Radar \<Rightarrow> Radar) \<Rightarrow> world \<Rightarrow> world" where
  "with_scope f w = w\<lparr>ctl := (ctl w)\<lparr>scope := f (scope (ctl w))\<rparr>\<rparr>"


text \<open>The first two statements of the tick case.\<close>

definition merges_then_threats :: "env \<Rightarrow> context \<Rightarrow> run_state \<Rightarrow> run_state" where
  "merges_then_threats e ctx rs =
     (let (id1, w1) = new_uuid e (world rs);
          ctx1 = WithTraceID ctx id1;
          w2 = broadcastMerges e ctx1 w1;
          (id2, w3) = new_uuid e w2;
          ctx2 = WithTraceID ctx id2;
          w4 = broadcastThreats e ctx2 w3
      in rs\<lparr>world := w4, invoked := invoked rs @ [BroadcastMerges ctx1, BroadcastThreats ctx2]\<rparr>)"

text \<open>The condition of the \<open>if\<close> in the tick case.\<close>

definition picture_due :: "time \<Rightarrow> world \<Rightarrow> bool" where
  "picture_due now w =
     (enableAutomaticPicture (ctl w) \<and> After now (pictureBroadcastDeadline (ctl w)))"

text \<open>The body of the \<open>if\<close> in the tick case.\<close>

definition automatic_picture :: "env \<Rightarrow> context \<Rightarrow> run_state \<Rightarrow> run_state" where
  "automatic_picture e ctx rs =
     (let (id3, w1) = new_uuid e (world rs);
          ctx3 = WithTraceID ctx id3;
          w2 = broadcastPicture e ctx3 GlobalLogger False w1
      in rs\<lparr>world := w2, invoked := invoked rs @ [BroadcastPicture ctx3 GlobalLogger False]\<rparr>)"

definition tick :: "env \<Rightarrow> context \<Rightarrow> time \<Rightarrow> run_state \<Rightarrow> run_state" where
  "tick e ctx now rs =
     (let rs1 = merges_then_threats e ctx rs
      in if picture_due now (world rs1) then automatic_picture e ctx rs1 else rs1)"

text \<open>The cancellation case, with the deferred \<open>ticker.Stop()\<close>.\<close>

definition cancelled :: "run_state \<Rightarrow> run_state" where
  "cancelled rs =
     (let w1 = log_msg InfoLevel [] ''detaching callbacks'' (world rs);
          w2 = with_scope (SetFadedCallback None) w1;
          w3 = with_scope (SetRemovedCallback None) w2;
          w4 = with_scope (SetStartedCallback None) w3
      in rs\<lparr>world := w4, ticker := map_option Stop (ticker rs), returned := True\<rparr>)"

fun Run_loop :: "env \<Rightarrow> context \<Rightarrow> event list \<Rightarrow> run_state \<Rightarrow> run_state" where
  "Run_loop e ctx [] rs = rs"
| "Run_loop e ctx (Done # es) rs = cancelled rs"
| "Run_loop e ctx (Tick now # es) rs = Run_loop e ctx es (tick e ctx now rs)"


subsection \<open>findCallsign\<close>

text \<open>
  The three results, and the log entries written. A \<open>*trackfiles.Trackfile\<close> is a
  trackfile or nil.
\<close>

definition findCallsign ::
  "controller \<Rightarrow> string \<Rightarrow> (string \<times> Trackfile option \<times> bool) \<times> log_entry list" where
  "findCallsign c callsign =
     (let logger = [(''parsedCallsign'', callsign)];
          (foundCallsign, trackfile) = FindCallsign (scope c) callsign (coalition c)
      in case trackfile of
           None \<Rightarrow>
             (('''', None, False),
              [\<lparr>level = InfoLevel, log_fields = logger, msg = ''no trackfile found for callsign''\<rparr>])
         | Some tf \<Rightarrow>
             (let logger' = logger @ [(''foundCallsign'', foundCallsign)]
              in if IsLastKnownPointZero tf then
                   ((foundCallsign, Some tf, False),
                    [\<lparr>level = InfoLevel, log_fields = logger',
                      msg = ''found trackfile for callsign but without location''\<rparr>])
                 else
                   ((foundCallsign, Some tf, True),
                    [\<lparr>level = DebugLevel, log_fields = logger',
                      msg = ''found trackfile for callsign''\<rparr>])))"

section \<open>The composer (package composer)\<close>

subsection \<open>fmt.Sprintf and strings.ToLower\<close>

text \<open>
  \<open>fmt.Sprintf\<close> for the verbs \<open>%s\<close> (with a string operand) and \<open>%d\<close> (with an int
  operand), the only ones in the format strings of the package, and \<open>%%\<close>; with the
  texts Go writes for a verb without operand, a verb at the end of the format, an operand
  the verb does not take and operands left over. Every other verb is outside the model.
\<close>

datatype operand = StringArg string | IntArg int

definition digit :: "nat \<Rightarrow> char" where
  "digit d = ''0123456789'' ! d"

function decimal :: "nat \<Rightarrow> string" where
  "decimal n = (if n < 10 then [digit n] else decimal (n div 10) @ [digit (n mod 10)])"
  by pat_completeness auto
termination
  by (relation "measure id") auto

declare decimal.simps [simp del]

definition fmt_d :: "int \<Rightarrow> string" where
  "fmt_d n = (if n < 0 then CHR ''-'' # decimal (nat (- n)) else decimal (nat n))"

fun type_value :: "operand \<Rightarrow> string" where
  "type_value (StringArg s) = ''string='' @ s"
| "type_value (IntArg n) = ''int='' @ fmt_d n"

fun extra :: "operand list \<Rightarrow> string" where
  "extra [] = []"
| "extra [a] = type_value a"
| "extra (a # b # as) = type_value a @ '', '' @ extra (b # as)"

fun verb :: "char \<Rightarrow> operand \<Rightarrow> string" where
  "verb v (StringArg s) =
     (if v = CHR ''s'' then s else ''%!'' @ [v] @ ''(string='' @ s @ '')'')"
| "verb v (IntArg n) =
     (if v = CHR ''d'' then fmt_d n else ''%!'' @ [v] @ ''(int='' @ fmt_d n @ '')'')"

fun Sprintf :: "string \<Rightarrow> operand list \<Rightarrow> string" where
  "Sprintf [] [] = []"
| "Sprintf [] (a # as) = ''%!(EXTRA '' @ extra (a # as) @ '')''"
| "Sprintf [c] as =
     (if c = CHR ''%'' then ''%!(NOVERB)'' @ Sprintf [] as else c # Sprintf [] as)"
| "Sprintf (c # v # fmt) as =
     (if c \<noteq> CHR ''%'' then c # Sprintf (v # fmt) as
      else if v = CHR ''%'' then CHR ''%'' # Sprintf fmt as
      else case as of
             [] \<Rightarrow> ''%!'' @ [v] @ ''(MISSING)'' @ Sprintf fmt []
           | a # rest \<Rightarrow> verb v a @ Sprintf fmt rest)"



text \<open>
  A float64 is a finite number \<open>m * 2 ^ e\<close>, a NaN or an infinity with its sign. The
  conversion \<open>int(x)\<close> discards the fraction of a finite \<open>x\<close>, truncating towards
  zero. An \<open>int\<close> has 64 bits; when it cannot represent the result, the conversion
  succeeds with a number that depends on the implementation, given by the argument
  \<open>other\<close>.
\<close>

datatype float64 = Float int int | NaN | Infinity bool

definition whole_part :: "int \<Rightarrow> int \<Rightarrow> int" where
  "whole_part m e =
     (if 0 \<le> e then m * 2 ^ nat e else sgn m * (\<bar>m\<bar> div 2 ^ nat (- e)))"

definition int_of_float64 :: "(float64 \<Rightarrow> int) \<Rightarrow> float64 \<Rightarrow> int" where
  "int_of_float64 other x =
     (case x of
        Float m e \<Rightarrow>
          if - (2 ^ 63) \<le> whole_part m e \<and> whole_part m e < 2 ^ 63 then whole_part m e
          else other x
      | NaN \<Rightarrow> other x
      | Infinity negative \<Rightarrow> other x)"

text \<open>
  \<open>rand.IntN(n)\<close> returns a number from 0 up to but not including \<open>n\<close>, for \<open>n\<close>
  above 0: it is the draw \<open>r\<close> of the generator reduced below \<open>n\<close>.
\<close>

definition rand_IntN :: "nat \<Rightarrow> nat \<Rightarrow> nat" where
  "rand_IntN r n = r mod n"

subsection \<open>Requests, responses and what the composer calls\<close>

record NaturalLanguageResponse =
  Subtitle :: string
  Speech :: string

text \<open>
  Modelled from the spec: package brevity is not among the sources. A location gives a
  bearing and a distance; bearings, distances and groups are types of other packages and
  stay abstract (\<open>'b\<close>, \<open>'d\<close>, \<open>'g\<close>).
\<close>

record ('b, 'd) Location =
  Bearing :: 'b
  Distance :: 'd

record ('b, 'd) AlphaCheckResponse =
  Callsign :: string
  Status :: bool
  Location :: "('b, 'd) Location"

record NegativeRadarContactResponse =
  Callsign :: string


record composer =
  callsign :: string

text \<open>
  The functions and methods the three composing methods call that are not among the
  sources are parameters: \<open>ComposeCallsigns\<close>, \<open>ComposeGroup\<close>,
  \<open>PronounceBearing\<close> and \<open>applyToFirstCharacter\<close> of the package, the methods
  \<open>IsMagnetic\<close> and \<open>String\<close> of a bearing, and the method \<open>NauticalMiles\<close> of a
  distance, which returns a float64. \<open>OutOfRange\<close> is what the implementation makes of
  a float64 that an \<open>int\<close> cannot represent.
\<close>

record ('b, 'd, 'g) deps =
  ComposeCallsigns :: "string list \<Rightarrow> string"
  ComposeGroup :: "'g \<Rightarrow> NaturalLanguageResponse"
  PronounceBearing :: "'b \<Rightarrow> string"
  applyToFirstCharacter :: "string \<Rightarrow> (string \<Rightarrow> string) \<Rightarrow> string"
  IsMagnetic :: "'b \<Rightarrow> bool"
  BearingString :: "'b \<Rightarrow> string"
  NauticalMiles :: "'d \<Rightarrow> float64"
  OutOfRange :: "float64 \<Rightarrow> int"

subsection \<open>ComposeAlphaCheckResponse\<close>

text \<open>The response, and the log entries written.\<close>

definition ComposeAlphaCheckResponse ::
  "('b, 'd, 'g) deps \<Rightarrow> composer \<Rightarrow> ('b, 'd) AlphaCheckResponse
     \<Rightarrow> log_entry list \<times> NaturalLanguageResponse" where
  "ComposeAlphaCheckResponse d c response =
     (if Status response then
        ((if \<not> IsMagnetic d (Bearing (Location response)) then
            [\<lparr>level = ErrorLevel,
              log_fields = [(''bearing'', BearingString d (Bearing (Location response)))],
              msg = ''bearing provided to ComposeAlphaCheckResponse should be magnetic''\<rparr>]
          else []),
         \<lparr>Subtitle = Sprintf ''%s, %s, contact, alpha check bullseye %s/%d''
            [StringArg (ComposeCallsigns d [AlphaCheckResponse.Callsign response]),
             StringArg (ComposeCallsigns d [callsign c]),
             StringArg (BearingString d (Bearing (Location response))),
             IntArg (int_of_float64 (OutOfRange d)
                       (NauticalMiles d (Distance (Location response))))],
          Speech = Sprintf ''%s, %s, contact, alpha check bullseye %s, %d''
            [StringArg (ComposeCallsigns d [AlphaCheckResponse.Callsign response]),
             StringArg (ComposeCallsigns d [callsign c]),
             StringArg (PronounceBearing d (Bearing (Location response))),
             IntArg (int_of_float64 (OutOfRange d)
                       (NauticalMiles d (Distance (Location response))))]\<rparr>)
      else
        (let reply = AlphaCheckResponse.Callsign response @ '', negative contact''
         in ([], \<lparr>Subtitle = reply, Speech = reply\<rparr>)))"

subsection \<open>ComposeNegativeRadarContactResponse\<close>

definition replies :: "string list" where
  "replies =
     [''%s, negative radar contact. Double check your callsign.'',
      ''%s, negative radar contact. Check your callsign.'',
      ''%s, negative radar contact. Verify your callsign.'',
      ''%s, negative radar contact. Confirm your callsign.'',
      ''%s, negative radar contact. Send it again for me.'',
      ''%s, negative radar contact. I might have misheard your callsign.'',
      ''%s, negative radar contact. Is that the right callsign?'',
      ''%s, negative radar contact. Possible I misheard the callsign.'',
      ''%s, negative radar contact. No contact with that callsign on scope.'',
      ''%s, negative radar contact. Can't find that callsign on scope.'',
      ''%s, negative radar contact. I don't see that callsign on scope.'',
      ''%s, negative radar contact. I don't have that callsign on scope.'',
      ''%s, negative radar contact. I do not have that callsign on scope.'']"

text \<open>\<open>r\<close> is the draw of the random generator.\<close>

definition ComposeNegativeRadarContactResponse ::
  "('b, 'd, 'g) deps \<Rightarrow> nat \<Rightarrow> NegativeRadarContactResponse \<Rightarrow> NaturalLanguageResponse" where
  "ComposeNegativeRadarContactResponse d r response =
     (let reply = Sprintf (replies ! rand_IntN r (length replies))
                    [StringArg (ComposeCallsigns d [NegativeRadarContactResponse.Callsign response])]
      in \<lparr>Subtitle = reply, Speech = reply\<rparr>)"

subsection \<open>ComposeThreatCall\<close>


section \<open>Notions used in the statements\<close>

text \<open>
  The three surveillance actions, read off the calls \<open>Run\<close> makes; the actions of one
  tick, with or without the picture; the number of ticks \<open>Run\<close> takes from a sequence of
  select outcomes, which are those before the first cancellation.
\<close>

datatype action = Merges | Threats | Picture

fun action_of :: "invocation \<Rightarrow> action" where
  "action_of (BroadcastMerges ctx) = Merges"
| "action_of (BroadcastThreats ctx) = Threats"
| "action_of (BroadcastPicture ctx l force) = Picture"

definition tick_actions :: "bool \<Rightarrow> action list" where
  "tick_actions picture = [Merges, Threats] @ (if picture then [Picture] else [])"

definition ticks_taken :: "event list \<Rightarrow> nat" where
  "ticks_taken es = length (takeWhile (\<lambda>ev. ev \<noteq> Done) es)"



section \<open>Concrete inputs\<close>

text \<open>
  Values at which the statements below are evaluated. In \<open>idle_env\<close> the three broadcast
  methods leave the world as it is. The scope of \<open>blue_controller\<close> knows Eagle 1 1 with a
  position and Viper 2 without one.
\<close>

definition idle_env :: env where
  "idle_env =
     \<lparr>shortuuid_New = (\<lambda>n. ''uuid'' @ decimal n),
      broadcastMerges = (\<lambda>ctx w. w),
      broadcastThreats = (\<lambda>ctx w. w),
      broadcastPicture = (\<lambda>ctx l force w. w)\<rparr>"

definition eagle :: Trackfile where
  "eagle = \<lparr>ID = 1, TrackfileCallsign = ''Eagle 1 1'', TrackfileCoalition = Blue,
            IsLastKnownPointZero = False\<rparr>"

definition viper :: Trackfile where
  "viper = \<lparr>ID = 2, TrackfileCallsign = ''Viper 2'', TrackfileCoalition = Blue,
            IsLastKnownPointZero = True\<rparr>"

definition blue_scope :: Radar where
  "blue_scope =
     \<lparr>FindCallsign = (\<lambda>cs co.
        if cs = ''eagle 11'' \<and> co = Blue then (''Eagle 1 1'', Some eagle)
        else if cs = ''viper 2'' \<and> co = Blue then (''Viper 2'', Some viper)
        else ('''', None)),
      FadedCallback = None, RemovedCallback = None, StartedCallback = None\<rparr>"

definition blue_controller :: controller where
  "blue_controller =
     \<lparr>coalition = Blue, scope = blue_scope,
      srsClient = \<lparr>ClientFrequencies =
        [\<lparr>RadioFrequency_Frequency = 251, RadioFrequency_Modulation = 0\<rparr>,
         \<lparr>RadioFrequency_Frequency = 133, RadioFrequency_Modulation = 0\<rparr>,
         \<lparr>RadioFrequency_Frequency = 251, RadioFrequency_Modulation = 1\<rparr>]\<rparr>,
      enableAutomaticPicture = True,
      pictureBroadcastInterval = 120 * Second,
      pictureBroadcastDeadline = 100,
      wasLastPictureClean = False,
      enableThreatMonitoring = True,
      threatCooldowns = Map.empty,
      threatMonitoringCooldown = 60 * Second,
      threatMonitoringRequiresSRS = False,
      merges = Map.empty,
      calls = None\<rparr>"

definition blue_world :: world where
  "blue_world = \<lparr>ctl = blue_controller, sent = [], logs = [], uuids_drawn = 0\<rparr>"

definition blue_running :: run_state where
  "blue_running =
     \<lparr>world = blue_world, ticker = Some (NewTicker (15 * Second)), invoked = [],
      returned = False\<rparr>"

text \<open>
  In \<open>announcing_env\<close> each broadcast method sends a call that names it on the outbound
  channel, and the picture broadcast moves the deadline on by the interval.
  \<open>blue_on_air\<close> is the running controller with its outbound channel assigned.
\<close>

definition announce :: "string \<Rightarrow> context \<Rightarrow> world \<Rightarrow> world" where
  "announce what ctx w =
     (case send (NewCall ctx (OtherCall what)) w of None \<Rightarrow> w | Some w' \<Rightarrow> w')"

definition announcing_env :: env where
  "announcing_env =
     \<lparr>shortuuid_New = (\<lambda>n. ''uuid'' @ decimal n),
      broadcastMerges = announce ''MergedCall'',
      broadcastThreats = announce ''ThreatCall'',
      broadcastPicture = (\<lambda>ctx l force w.
        announce ''PictureResponse'' ctx
          (w\<lparr>ctl := (ctl w)\<lparr>pictureBroadcastDeadline :=
             pictureBroadcastDeadline (ctl w) + pictureBroadcastInterval (ctl w)\<rparr>\<rparr>))\<rparr>"

definition blue_on_air :: run_state where
  "blue_on_air =
     \<lparr>world = blue_world\<lparr>ctl := blue_controller\<lparr>calls := Some (Chan 7)\<rparr>\<rparr>,
      ticker = Some (NewTicker (15 * Second)), invoked = [], returned = False\<rparr>"

text \<open>
  For the composer: a bearing is a number of degrees with a flag for magnetic, a distance
  a number of half nautical miles, a group its name; \<open>applyToFirstCharacter\<close> applies
  the function to the first byte.
\<close>

definition plain_deps :: "(nat \<times> bool, int, string) deps" where
  "plain_deps =
     \<lparr>ComposeCallsigns = concat,
      ComposeGroup = (\<lambda>g. \<lparr>Subtitle = g, Speech = ''group '' @ g\<rparr>),
      PronounceBearing = (\<lambda>b. decimal (fst b)),
      applyToFirstCharacter = (\<lambda>s f. f (take 1 s) @ drop 1 s),
      IsMagnetic = snd,
      BearingString = (\<lambda>b. decimal (fst b)),
      NauticalMiles = (\<lambda>h. Float h (- 1)),
      OutOfRange = (\<lambda>x. - (2 ^ 63))\<rparr>"

definition skyeye :: composer where
  "skyeye = \<lparr>callsign = ''Skyeye''\<rparr>"

section \<open>Voice packets: what the parser does\<close>

lemma bindE_simps [simp]:
  "bindE (Inl e) f = Inl e"
  "bindE (Inr v) f = f v"
  by (simp_all add: bindE_def)

lemma Uint16_two:
  "Uint16 \<lparr>elems = xs, slen = 2\<rparr> = Inr (ucast (xs ! 1) OR push_bit 8 (ucast (xs ! 0)))"
  by (simp add: Uint16_def index_def)

lemma headers_ok:
  "6 \<le> cap b \<Longrightarrow> \<exists>pl asl fsl. headers b =
     Inr \<lparr>PacketLength = pl, AudioSegmentLength = asl, FrequenciesSegmentLength = fsl,
          AudioLength = 0, AudioBytes = nil_slice, Frequencies = [],
          UnitID = 0, PacketID = 0, RetransmissionCount = 0,
          OriginalGUID = nil_slice, GUID = nil_slice\<rparr>"
  by (simp add: headers_def sliceExpr_def Uint16_two)

lemma headers_panic: "cap b < 6 \<Longrightarrow> headers b = Inl SliceBoundsOutOfRange"
  by (simp add: headers_def sliceExpr_def Uint16_two)

lemma headers_AudioLength: "headers b = Inr p \<Longrightarrow> AudioLength p = 0"
  by (auto simp: headers_def sliceExpr_def Uint16_two split: if_splits)

lemma headers_frequenciesOffset: "headers b = Inr p \<Longrightarrow> frequenciesOffset p = 8"
  by (simp add: frequenciesOffset_def audioBytesOffset_def audioSegmentOffset_def
      headers_AudioLength)

lemma decodePrefix_Inr:
  assumes "decodePrefix b = Inr (p, fo, fso)"
  shows "fo = 8 \<and> fso = 8 + unat (FrequenciesSegmentLength p) \<and> 8 \<le> cap b
     \<and> AudioBytes p = \<lparr>elems = drop 8 (elems b), slen = 0\<rparr>
     \<and> AudioLength p = ucast (elems b ! 7) OR push_bit 8 (ucast (elems b ! 6))"
proof -
  from assms obtain p0 where h: "headers b = Inr p0"
    by (cases "headers b") (simp_all add: decodePrefix_def)
  show ?thesis
    using assms h headers_frequenciesOffset [OF h]
    by (auto simp: decodePrefix_def Let_def audioBytesOffset_def audioSegmentOffset_def
        fixedSegmentOffset_def sliceExpr_def Uint16_two cap_def split: if_splits)
qed

lemma decodePrefix_ok:
  assumes "8 \<le> cap b"
  shows "\<exists>p fso. decodePrefix b = Inr (p, 8, fso)"
proof -
  from assms obtain p0 where h: "headers b = Inr p0"
    using headers_ok [of b] by auto
  show ?thesis
    using assms h headers_frequenciesOffset [OF h]
    by (simp add: decodePrefix_def Let_def audioBytesOffset_def audioSegmentOffset_def
        sliceExpr_def Uint16_two)
qed

lemma decodePrefix_panic:
  assumes "cap b < 8"
  shows "decodePrefix b = Inl SliceBoundsOutOfRange"
proof (cases "cap b < 6")
  case True
  then show ?thesis by (simp add: decodePrefix_def headers_panic)
next
  case False
  then obtain p0 where h: "headers b = Inr p0"
    using headers_ok [of b] by auto
  show ?thesis
    using assms h
    by (simp add: decodePrefix_def Let_def audioBytesOffset_def audioSegmentOffset_def
        sliceExpr_def)
qed

lemma readFrequency_cases:
  "readFrequency b i =
     (if cap b < i + 8 then Inl SliceBoundsOutOfRange
      else if slen b \<le> i + 9 then Inl IndexOutOfRange
      else Inr \<lparr>Frequency = projr (Uint64 \<lparr>elems = drop i (elems b), slen = 8\<rparr>),
                Modulation = elems b ! (i + 8), Encryption = elems b ! (i + 9)\<rparr>)"
  by (auto simp: readFrequency_def sliceExpr_def index_def Uint64_def)

text \<open>
  Whatever the loop returns, it returns from its first iteration: with the panic of the
  body when the condition holds, with the packet unchanged when it does not.
\<close>

lemma frequenciesLoop_Some:
  assumes "frequenciesLoop b fo i p = Some r"
  shows "if i \<le> fo + unat (FrequenciesSegmentLength p)
         then (\<exists>e. readFrequency b i = Inl e \<and> r = Inl e) else r = Inr p"
proof (rule frequenciesLoop.raw_induct [where
      P = "\<lambda>b fo i p r. if i \<le> fo + unat (FrequenciesSegmentLength p)
         then (\<exists>e. readFrequency b i = Inl e \<and> r = Inl e) else r = Inr p", OF _ assms])
  fix f b fo i p r
  assume IH: "\<And>b fo i p r. f b fo i p = Some r \<Longrightarrow>
      (if i \<le> fo + unat (FrequenciesSegmentLength p)
         then (\<exists>e. readFrequency b i = Inl e \<and> r = Inl e) else r = Inr p)"
    and body: "(if i \<le> fo + unat (FrequenciesSegmentLength p) then
        (case readFrequency b i of
           Inl e \<Rightarrow> Some (Inl e)
         | Inr frequency \<Rightarrow> f b fo i (p\<lparr>Frequencies := Frequencies p @ [frequency]\<rparr>))
      else Some (Inr p)) = Some r"
  show "if i \<le> fo + unat (FrequenciesSegmentLength p)
         then (\<exists>e. readFrequency b i = Inl e \<and> r = Inl e) else r = Inr p"
  proof (cases "i \<le> fo + unat (FrequenciesSegmentLength p)")
    case False
    with body show ?thesis by simp
  next
    case True
    show ?thesis
    proof (cases "readFrequency b i")
      case (Inl e)
      with True body show ?thesis by simp
    next
      case (Inr fr)
      with True body have "f b fo i (p\<lparr>Frequencies := Frequencies p @ [fr]\<rparr>) = Some r"
        by simp
      from IH [OF this] True Inr show ?thesis by simp
    qed
  qed
qed

lemma frequenciesLoop_diverges:
  assumes "i \<le> fo + unat (FrequenciesSegmentLength p)" and "readFrequency b i = Inr f"
  shows "frequenciesLoop b fo i p = None"
proof (cases "frequenciesLoop b fo i p")
  case None
  then show ?thesis .
next
  case (Some r)
  from frequenciesLoop_Some [OF Some] assms show ?thesis by simp
qed

lemma frequenciesLoop_panics:
  assumes "i \<le> fo + unat (FrequenciesSegmentLength p)" and "readFrequency b i = Inl e"
  shows "frequenciesLoop b fo i p = Some (Inl e)"
  using assms by (subst frequenciesLoop.simps) simp

lemma frequenciesLoop_None_iff:
  "frequenciesLoop b fo i p = None \<longleftrightarrow>
     i \<le> fo + unat (FrequenciesSegmentLength p) \<and> (\<exists>f. readFrequency b i = Inr f)"
proof (cases "i \<le> fo + unat (FrequenciesSegmentLength p)")
  case False
  then show ?thesis by (subst frequenciesLoop.simps) simp
next
  case True
  then show ?thesis
    by (cases "readFrequency b i")
      (simp_all add: frequenciesLoop_panics frequenciesLoop_diverges)
qed

lemma newVoicePacketFrom_cases:
  "newVoicePacketFrom b =
     (if cap b < 16 then Some (Inl SliceBoundsOutOfRange)
      else if slen b < 18 then Some (Inl IndexOutOfRange)
      else None)"
proof (cases "cap b < 8")
  case True
  then show ?thesis by (simp add: newVoicePacketFrom_def decodePrefix_panic)
next
  case False
  then obtain p fso where d: "decodePrefix b = Inr (p, 8, fso)"
    using decodePrefix_ok [of b] by auto
  have entry: "(8::nat) \<le> 8 + unat (FrequenciesSegmentLength p)" by simp
  consider (short) "cap b < 16" | (cut) "16 \<le> cap b" "slen b < 18"
    | (long) "16 \<le> cap b" "18 \<le> slen b"
    by linarith
  then show ?thesis
  proof cases
    case short
    then have "readFrequency b 8 = Inl SliceBoundsOutOfRange"
      by (simp add: readFrequency_cases)
    from frequenciesLoop_panics [OF entry this] d short show ?thesis
      by (simp add: newVoicePacketFrom_def)
  next
    case cut
    then have "readFrequency b 8 = Inl IndexOutOfRange"
      by (simp add: readFrequency_cases)
    from frequenciesLoop_panics [OF entry this] d cut show ?thesis
      by (simp add: newVoicePacketFrom_def)
  next
    case long
    then obtain f where "readFrequency b 8 = Inr f"
      by (simp add: readFrequency_cases)
    from frequenciesLoop_diverges [OF entry this] d long show ?thesis
      by (simp add: newVoicePacketFrom_def)
  qed
qed

text \<open>
  C2, as amended. The loop of \<open>newVoicePacketFrom\<close> runs every iteration at the same
  index, and its condition holds at entry for every input that reaches it. So the function
  returns a packet for no input: an input of capacity below 16 or length below 18 ends in
  a run-time panic (before the loop or in its first iteration), every other input never
  leaves the loop.
\<close>

theorem newVoicePacketFrom_never_returns:
  "newVoicePacketFrom b =
     (if cap b < 16 then Some (Inl SliceBoundsOutOfRange)
      else if slen b < 18 then Some (Inl IndexOutOfRange)
      else None)
   \<and> (\<forall>p. newVoicePacketFrom b \<noteq> Some (Inr p))
   \<and> (\<forall>p fo fso. decodePrefix b = Inr (p, fo, fso) \<longrightarrow>
        fo \<le> fo + unat (FrequenciesSegmentLength p)
        \<and> (frequenciesLoop b fo fo p = None \<longleftrightarrow> (\<exists>f. readFrequency b fo = Inr f)))"
  by (simp add: newVoicePacketFrom_cases frequenciesLoop_None_iff)

theorem newVoicePacketFrom_never_returns_witness:
  "decodePrefix (bytes [0, 40, 0, 2, 0, 10, 0, 0, 1, 2, 3, 4, 5, 6, 7, 8, 0, 0]) =
     Inr (\<lparr>PacketLength = 40, AudioSegmentLength = 2, FrequenciesSegmentLength = 10,
           AudioLength = 0,
           AudioBytes = \<lparr>elems = [1, 2, 3, 4, 5, 6, 7, 8, 0, 0], slen = 0\<rparr>,
           Frequencies = [], UnitID = 0, PacketID = 0, RetransmissionCount = 0,
           OriginalGUID = nil_slice, GUID = nil_slice\<rparr>, 8, 18)
   \<and> frequenciesLoop (bytes [0, 40, 0, 2, 0, 10, 0, 0, 1, 2, 3, 4, 5, 6, 7, 8, 0, 0]) 8 8
       \<lparr>PacketLength = 40, AudioSegmentLength = 2, FrequenciesSegmentLength = 10,
        AudioLength = 0,
        AudioBytes = \<lparr>elems = [1, 2, 3, 4, 5, 6, 7, 8, 0, 0], slen = 0\<rparr>,
        Frequencies = [], UnitID = 0, PacketID = 0, RetransmissionCount = 0,
        OriginalGUID = nil_slice, GUID = nil_slice\<rparr> = None
   \<and> newVoicePacketFrom (bytes [0, 40, 0, 2, 0, 10, 0, 0, 1, 2, 3, 4, 5, 6, 7, 8, 0, 0]) = None
   \<and> newVoicePacketFrom (bytes [0, 40, 0, 2, 0, 10, 0, 0, 1, 2, 3, 4, 5, 6, 7, 8, 0])
       = Some (Inl IndexOutOfRange)"
proof -
  let ?b = "bytes [0, 40, 0, 2, 0, 10, 0, 0, 1, 2, 3, 4, 5, 6, 7, 8, 0, 0]"
  let ?p = "\<lparr>PacketLength = 40, AudioSegmentLength = 2, FrequenciesSegmentLength = 10,
           AudioLength = 0,
           AudioBytes = \<lparr>elems = [1, 2, 3, 4, 5, 6, 7, 8, 0, 0], slen = 0\<rparr>,
           Frequencies = [], UnitID = 0, PacketID = 0, RetransmissionCount = 0,
           OriginalGUID = nil_slice, GUID = nil_slice\<rparr>"
  have d: "decodePrefix ?b = Inr (?p, 8, 18)"
    by (simp add: decodePrefix_def headers_def sliceExpr_def Uint16_two
        frequenciesOffset_def fixedSegmentOffset_def audioBytesOffset_def
        audioSegmentOffset_def bytes_def cap_def)
  have r: "\<exists>f. readFrequency ?b 8 = Inr f"
    by (simp add: readFrequency_cases bytes_def cap_def)
  from newVoicePacketFrom_never_returns [of ?b] d r
  have "frequenciesLoop ?b 8 8 ?p = None" by blast
  with d newVoicePacketFrom_never_returns [of ?b]
    newVoicePacketFrom_never_returns
      [of "bytes [0, 40, 0, 2, 0, 10, 0, 0, 1, 2, 3, 4, 5, 6, 7, 8, 0]"]
  show ?thesis
    by (simp add: bytes_def cap_def)
qed

text \<open>
  C2 as stated fails: an input of eight bytes reaches the loop, the condition of the loop
  holds there, and the function ends, with a panic in the first iteration.
\<close>

theorem newVoicePacketFrom_short_input_panics:
  "decodePrefix (bytes [0, 8, 0, 2, 0, 0, 0, 0]) =
     Inr (\<lparr>PacketLength = 8, AudioSegmentLength = 2, FrequenciesSegmentLength = 0,
           AudioLength = 0, AudioBytes = \<lparr>elems = [], slen = 0\<rparr>, Frequencies = [],
           UnitID = 0, PacketID = 0, RetransmissionCount = 0,
           OriginalGUID = nil_slice, GUID = nil_slice\<rparr>, 8, 8)
   \<and> (8::nat) \<le> 8 + unat (0 :: 16 word)
   \<and> newVoicePacketFrom (bytes [0, 8, 0, 2, 0, 0, 0, 0]) = Some (Inl SliceBoundsOutOfRange)
   \<and> newVoicePacketFrom (bytes [0, 8, 0, 2, 0, 0, 0, 0]) \<noteq> None"
  by (simp add: newVoicePacketFrom_cases decodePrefix_def headers_def sliceExpr_def Uint16_two
      frequenciesOffset_def fixedSegmentOffset_def audioBytesOffset_def audioSegmentOffset_def
      bytes_def cap_def)

text \<open>
  C10. The offset of the frequency segment is computed from the packet of the opening
  literal, whose audio length is 0: it is 8 for every input. When the statements before
  the loop succeed, which they do for every input of capacity 8 or more, the audio bytes
  are \<open>b[8:8]\<close>, of length 0, whatever audio length bytes 6 and 7 of the input encode.
\<close>

theorem frequenciesOffset_ignores_AudioLength:
  "(headers b = Inr p0 \<longrightarrow> AudioLength p0 = 0 \<and> frequenciesOffset p0 = 8)
   \<and> (decodePrefix b = Inr (p, fo, fso) \<longrightarrow>
        fo = 8 \<and> sliceExpr b 8 8 = Inr (AudioBytes p) \<and> slen (AudioBytes p) = 0
        \<and> AudioLength p = ucast (elems b ! 7) OR push_bit 8 (ucast (elems b ! 6)))
   \<and> (8 \<le> cap b \<longrightarrow> (\<exists>p fso. decodePrefix b = Inr (p, 8, fso)))"
proof (intro conjI impI)
  assume "headers b = Inr p0"
  then show "AudioLength p0 = 0" and "frequenciesOffset p0 = 8"
    by (rule headers_AudioLength, rule headers_frequenciesOffset)
next
  assume d: "decodePrefix b = Inr (p, fo, fso)"
  note f = decodePrefix_Inr [OF d]
  from f show "fo = 8" by simp
  from f show "sliceExpr b 8 8 = Inr (AudioBytes p)" by (simp add: sliceExpr_def)
  from f show "slen (AudioBytes p) = 0" by simp
  from f show "AudioLength p = ucast (elems b ! 7) OR push_bit 8 (ucast (elems b ! 6))"
    by simp
next
  assume "8 \<le> cap b"
  then show "\<exists>p fso. decodePrefix b = Inr (p, 8, fso)" by (rule decodePrefix_ok)
qed

theorem frequenciesOffset_ignores_AudioLength_witness:
  "headers (bytes [0, 40, 0, 7, 0, 10, 0, 5, 1, 2, 3, 4, 5, 6, 7, 8, 0, 0]) =
     Inr \<lparr>PacketLength = 40, AudioSegmentLength = 7, FrequenciesSegmentLength = 10,
          AudioLength = 0, AudioBytes = nil_slice, Frequencies = [],
          UnitID = 0, PacketID = 0, RetransmissionCount = 0,
          OriginalGUID = nil_slice, GUID = nil_slice\<rparr>
   \<and> decodePrefix (bytes [0, 40, 0, 7, 0, 10, 0, 5, 1, 2, 3, 4, 5, 6, 7, 8, 0, 0]) =
     Inr (\<lparr>PacketLength = 40, AudioSegmentLength = 7, FrequenciesSegmentLength = 10,
           AudioLength = 5,
           AudioBytes = \<lparr>elems = [1, 2, 3, 4, 5, 6, 7, 8, 0, 0], slen = 0\<rparr>,
           Frequencies = [], UnitID = 0, PacketID = 0, RetransmissionCount = 0,
           OriginalGUID = nil_slice, GUID = nil_slice\<rparr>, 8, 18)
   \<and> sliceExpr (bytes [0, 40, 0, 7, 0, 10, 0, 5, 1, 2, 3, 4, 5, 6, 7, 8, 0, 0]) 8 8 =
       Inr \<lparr>elems = [1, 2, 3, 4, 5, 6, 7, 8, 0, 0], slen = 0\<rparr>"
proof -
  let ?b = "bytes [0, 40, 0, 7, 0, 10, 0, 5, 1, 2, 3, 4, 5, 6, 7, 8, 0, 0]"
  let ?q = "\<lparr>PacketLength = 40, AudioSegmentLength = 7, FrequenciesSegmentLength = 10,
          AudioLength = 0, AudioBytes = nil_slice, Frequencies = [],
          UnitID = 0, PacketID = 0, RetransmissionCount = 0,
          OriginalGUID = nil_slice, GUID = nil_slice\<rparr>"
  let ?p = "\<lparr>PacketLength = 40, AudioSegmentLength = 7, FrequenciesSegmentLength = 10,
           AudioLength = 5,
           AudioBytes = \<lparr>elems = [1, 2, 3, 4, 5, 6, 7, 8, 0, 0], slen = 0\<rparr>,
           Frequencies = [], UnitID = 0, PacketID = 0, RetransmissionCount = 0,
           OriginalGUID = nil_slice, GUID = nil_slice\<rparr>"
  have h: "headers ?b = Inr ?q"
    by (simp add: headers_def sliceExpr_def Uint16_two bytes_def cap_def)
  have d: "decodePrefix ?b = Inr (?p, 8, 18)"
    by (simp add: decodePrefix_def headers_def sliceExpr_def Uint16_two
        frequenciesOffset_def fixedSegmentOffset_def audioBytesOffset_def
        audioSegmentOffset_def bytes_def cap_def)
  from frequenciesOffset_ignores_AudioLength [of ?b ?q ?p 8 18] h d show ?thesis
    by simp
qed

section \<open>The control loop\<close>




lemma invoked_merges_then_threats:
  "invoked (merges_then_threats e ctx rs) =
     invoked rs @
       [BroadcastMerges (WithTraceID ctx (shortuuid_New e (uuids_drawn (world rs)))),
        BroadcastThreats (WithTraceID ctx (shortuuid_New e (uuids_drawn
          (broadcastMerges e (WithTraceID ctx (shortuuid_New e (uuids_drawn (world rs))))
             ((world rs)\<lparr>uuids_drawn := Suc (uuids_drawn (world rs))\<rparr>)))))]"
  by (simp add: merges_then_threats_def new_uuid_def Let_def)

lemma invoked_automatic_picture:
  "invoked (automatic_picture e ctx rs) =
     invoked rs @
       [BroadcastPicture (WithTraceID ctx (shortuuid_New e (uuids_drawn (world rs))))
          GlobalLogger False]"
  by (simp add: automatic_picture_def new_uuid_def Let_def)

lemma invoked_tick:
  "invoked (tick e ctx now rs) =
     invoked (merges_then_threats e ctx rs) @
       (if picture_due now (world (merges_then_threats e ctx rs))
        then [BroadcastPicture
                (WithTraceID ctx (shortuuid_New e
                   (uuids_drawn (world (merges_then_threats e ctx rs)))))
                GlobalLogger False]
        else [])"
  by (simp add: tick_def Let_def invoked_automatic_picture)

lemma actions_tick:
  "map action_of (invoked (tick e ctx now rs)) =
     map action_of (invoked rs) @
       tick_actions (picture_due now (world (merges_then_threats e ctx rs)))"
  by (simp add: invoked_tick invoked_merges_then_threats tick_actions_def)

lemma Run_loop_append:
  "Done \<notin> set pre \<Longrightarrow>
     Run_loop e ctx (pre @ es) rs = Run_loop e ctx es (Run_loop e ctx pre rs)"
proof (induction pre arbitrary: rs)
  case Nil
  show ?case by simp
next
  case (Cons ev pre)
  then show ?case by (cases ev) simp_all
qed

lemma actions_Run_loop:
  "\<exists>pictures. length pictures = ticks_taken es \<and>
     map action_of (invoked (Run_loop e ctx es rs)) =
       map action_of (invoked rs) @ concat (map tick_actions pictures)"
proof (induction es arbitrary: rs)
  case Nil
  show ?case by (simp add: ticks_taken_def)
next
  case (Cons ev es)
  show ?case
  proof (cases ev)
    case Done
    then show ?thesis by (simp add: ticks_taken_def cancelled_def Let_def)
  next
    case (Tick now)
    from Cons.IH [of "tick e ctx now rs"] obtain pictures where
      len: "length pictures = ticks_taken es" and
      acts: "map action_of (invoked (Run_loop e ctx es (tick e ctx now rs))) =
        map action_of (invoked (tick e ctx now rs)) @ concat (map tick_actions pictures)"
      by blast
    let ?first = "picture_due now (world (merges_then_threats e ctx rs))"
    have "length (?first # pictures) = ticks_taken (ev # es)"
      using len Tick by (simp add: ticks_taken_def)
    moreover have "map action_of (invoked (Run_loop e ctx (ev # es) rs)) =
        map action_of (invoked rs) @ concat (map tick_actions (?first # pictures))"
      using acts Tick by (simp add: actions_tick)
    ultimately show ?thesis by blast
  qed
qed


lemma tick_eq:
  "tick e ctx now rs =
     (let w0 = world rs;
          ctx1 = WithTraceID ctx (shortuuid_New e (uuids_drawn w0));
          w1 = broadcastMerges e ctx1 (w0\<lparr>uuids_drawn := Suc (uuids_drawn w0)\<rparr>);
          ctx2 = WithTraceID ctx (shortuuid_New e (uuids_drawn w1));
          w2 = broadcastThreats e ctx2 (w1\<lparr>uuids_drawn := Suc (uuids_drawn w1)\<rparr>);
          ctx3 = WithTraceID ctx (shortuuid_New e (uuids_drawn w2))
      in if enableAutomaticPicture (ctl w2) \<and> pictureBroadcastDeadline (ctl w2) < now
         then rs\<lparr>world := broadcastPicture e ctx3 GlobalLogger False
                              (w2\<lparr>uuids_drawn := Suc (uuids_drawn w2)\<rparr>),
                  invoked := invoked rs @
                    [BroadcastMerges ctx1, BroadcastThreats ctx2,
                     BroadcastPicture ctx3 GlobalLogger False]\<rparr>
         else rs\<lparr>world := w2,
                  invoked := invoked rs @ [BroadcastMerges ctx1, BroadcastThreats ctx2]\<rparr>)"
  by (simp add: tick_def merges_then_threats_def automatic_picture_def picture_due_def
      After_def new_uuid_def Let_def)

lemma tick_after_merges_then_threats:
  "tick e ctx now rs =
     (let rs1 = merges_then_threats e ctx rs;
          w = world rs1;
          ctx3 = WithTraceID ctx (shortuuid_New e (uuids_drawn w))
      in if enableAutomaticPicture (ctl w) \<and> pictureBroadcastDeadline (ctl w) < now
         then rs1\<lparr>world := broadcastPicture e ctx3 GlobalLogger False
                               (w\<lparr>uuids_drawn := Suc (uuids_drawn w)\<rparr>),
                   invoked := invoked rs1 @ [BroadcastPicture ctx3 GlobalLogger False]\<rparr>
         else rs1)"
  by (simp add: tick_def automatic_picture_def picture_due_def After_def new_uuid_def Let_def)

lemma announce_sends:
  "calls (ctl w) = Some ch \<Longrightarrow>
     announce what ctx w = w\<lparr>sent := sent w @ [(ch, \<lparr>Context = ctx, Call = OtherCall what\<rparr>)]\<rparr>"
  by (simp add: announce_def send_def NewCall_def)

lemma decimal_digits:
  "decimal 0 = ''0''" "decimal (Suc 0) = ''1''" "decimal 2 = ''2''" "decimal 3 = ''3''"
  "decimal 4 = ''4''" "decimal 5 = ''5''" "decimal 6 = ''6''"
  "decimal (Suc (Suc 0)) = ''2''" "decimal (Suc (Suc (Suc 0))) = ''3''"
  "decimal (Suc (Suc (Suc (Suc 0)))) = ''4''"
  "decimal (Suc (Suc (Suc (Suc (Suc 0))))) = ''5''"
  "decimal (Suc (Suc (Suc (Suc (Suc (Suc 0)))))) = ''6''"
  by (simp_all add: decimal.simps digit_def)

text \<open>What a tick does in \<open>announcing_env\<close> to the calls sent and the calls made.\<close>

lemma merges_then_threats_announcing:
  assumes "calls (ctl (world rs)) = Some ch"
  shows "merges_then_threats announcing_env ctx rs =
     rs\<lparr>world := (world rs)
          \<lparr>uuids_drawn := Suc (Suc (uuids_drawn (world rs))),
           sent := sent (world rs) @
             [(ch, \<lparr>Context = WithTraceID ctx (''uuid'' @ decimal (uuids_drawn (world rs))),
                    Call = OtherCall ''MergedCall''\<rparr>),
              (ch, \<lparr>Context = WithTraceID ctx (''uuid'' @ decimal (Suc (uuids_drawn (world rs)))),
                    Call = OtherCall ''ThreatCall''\<rparr>)]\<rparr>,
         invoked := invoked rs @
           [BroadcastMerges (WithTraceID ctx (''uuid'' @ decimal (uuids_drawn (world rs)))),
            BroadcastThreats
              (WithTraceID ctx (''uuid'' @ decimal (Suc (uuids_drawn (world rs)))))]\<rparr>"
  using assms
  by (simp add: merges_then_threats_def new_uuid_def announcing_env_def announce_sends Let_def)

lemma cancelled_keeps:
  "sent (world (cancelled rs)) = sent (world rs)" "invoked (cancelled rs) = invoked rs"
  by (simp_all add: cancelled_def Let_def log_msg_def with_scope_def)

text \<open>
  C1. Whatever the select yields and whatever the broadcast methods do, a tick of \<open>Run\<close>
  calls the merge broadcast on the world as it is, then the threat broadcast on the world
  the merge broadcast left, then, when its condition holds in the world the threat
  broadcast left, the automatic picture broadcast on that world: the state after the tick
  is the result of these calls in this order, and of nothing else. Over a run there is one
  such group of calls for every tick taken, none left out and nothing in another order.
\<close>

theorem Run_ticks_merges_threats_picture:
  "tick e ctx now rs =
     (let w0 = world rs;
          ctx1 = WithTraceID ctx (shortuuid_New e (uuids_drawn w0));
          w1 = broadcastMerges e ctx1 (w0\<lparr>uuids_drawn := Suc (uuids_drawn w0)\<rparr>);
          ctx2 = WithTraceID ctx (shortuuid_New e (uuids_drawn w1));
          w2 = broadcastThreats e ctx2 (w1\<lparr>uuids_drawn := Suc (uuids_drawn w1)\<rparr>);
          ctx3 = WithTraceID ctx (shortuuid_New e (uuids_drawn w2))
      in if enableAutomaticPicture (ctl w2) \<and> pictureBroadcastDeadline (ctl w2) < now
         then rs\<lparr>world := broadcastPicture e ctx3 GlobalLogger False
                              (w2\<lparr>uuids_drawn := Suc (uuids_drawn w2)\<rparr>),
                  invoked := invoked rs @
                    [BroadcastMerges ctx1, BroadcastThreats ctx2,
                     BroadcastPicture ctx3 GlobalLogger False]\<rparr>
         else rs\<lparr>world := w2,
                  invoked := invoked rs @ [BroadcastMerges ctx1, BroadcastThreats ctx2]\<rparr>)
   \<and> Run_loop e ctx (Tick now # es) rs = Run_loop e ctx es (tick e ctx now rs)
   \<and> (\<exists>pictures. length pictures = ticks_taken es \<and>
        map action_of (invoked (Run_loop e ctx es rs)) =
          map action_of (invoked rs) @ concat (map tick_actions pictures))
   \<and> map action_of (invoked (tick e ctx now rs)) =
        map action_of (invoked rs) @ [Merges, Threats] @
          (if picture_due now (world (merges_then_threats e ctx rs)) then [Picture] else [])"
proof (intro conjI)
  show "tick e ctx now rs =
     (let w0 = world rs;
          ctx1 = WithTraceID ctx (shortuuid_New e (uuids_drawn w0));
          w1 = broadcastMerges e ctx1 (w0\<lparr>uuids_drawn := Suc (uuids_drawn w0)\<rparr>);
          ctx2 = WithTraceID ctx (shortuuid_New e (uuids_drawn w1));
          w2 = broadcastThreats e ctx2 (w1\<lparr>uuids_drawn := Suc (uuids_drawn w1)\<rparr>);
          ctx3 = WithTraceID ctx (shortuuid_New e (uuids_drawn w2))
      in if enableAutomaticPicture (ctl w2) \<and> pictureBroadcastDeadline (ctl w2) < now
         then rs\<lparr>world := broadcastPicture e ctx3 GlobalLogger False
                              (w2\<lparr>uuids_drawn := Suc (uuids_drawn w2)\<rparr>),
                  invoked := invoked rs @
                    [BroadcastMerges ctx1, BroadcastThreats ctx2,
                     BroadcastPicture ctx3 GlobalLogger False]\<rparr>
         else rs\<lparr>world := w2,
                  invoked := invoked rs @ [BroadcastMerges ctx1, BroadcastThreats ctx2]\<rparr>)"
    by (rule tick_eq)
  show "Run_loop e ctx (Tick now # es) rs = Run_loop e ctx es (tick e ctx now rs)"
    by simp
  show "\<exists>pictures. length pictures = ticks_taken es \<and>
        map action_of (invoked (Run_loop e ctx es rs)) =
          map action_of (invoked rs) @ concat (map tick_actions pictures)"
    by (rule actions_Run_loop)
  show "map action_of (invoked (tick e ctx now rs)) =
        map action_of (invoked rs) @ [Merges, Threats] @
          (if picture_due now (world (merges_then_threats e ctx rs)) then [Picture] else [])"
    by (simp add: actions_tick tick_actions_def)
qed

theorem Run_ticks_merges_threats_picture_witness:
  "sent (world (Run_loop announcing_env (Ctx 0) [Tick 100, Tick 101, Tick 102, Done, Tick 103]
     blue_on_air)) =
     [(Chan 7, \<lparr>Context = WithTraceID (Ctx 0) ''uuid0'', Call = OtherCall ''MergedCall''\<rparr>),
      (Chan 7, \<lparr>Context = WithTraceID (Ctx 0) ''uuid1'', Call = OtherCall ''ThreatCall''\<rparr>),
      (Chan 7, \<lparr>Context = WithTraceID (Ctx 0) ''uuid2'', Call = OtherCall ''MergedCall''\<rparr>),
      (Chan 7, \<lparr>Context = WithTraceID (Ctx 0) ''uuid3'', Call = OtherCall ''ThreatCall''\<rparr>),
      (Chan 7, \<lparr>Context = WithTraceID (Ctx 0) ''uuid4'', Call = OtherCall ''PictureResponse''\<rparr>),
      (Chan 7, \<lparr>Context = WithTraceID (Ctx 0) ''uuid5'', Call = OtherCall ''MergedCall''\<rparr>),
      (Chan 7, \<lparr>Context = WithTraceID (Ctx 0) ''uuid6'', Call = OtherCall ''ThreatCall''\<rparr>)]
   \<and> map action_of (invoked (Run_loop announcing_env (Ctx 0)
         [Tick 100, Tick 101, Tick 102, Done, Tick 103] blue_on_air)) =
       [Merges, Threats, Merges, Threats, Picture, Merges, Threats]
   \<and> ticks_taken [Tick 100, Tick 101, Tick 102, Done, Tick 103] = 3"
proof -
  let ?e = announcing_env and ?c = "Ctx 0"
  let ?m = "\<lambda>u. (Chan 7, \<lparr>Context = WithTraceID ?c u, Call = OtherCall ''MergedCall''\<rparr>)"
  let ?t = "\<lambda>u. (Chan 7, \<lparr>Context = WithTraceID ?c u, Call = OtherCall ''ThreatCall''\<rparr>)"
  let ?p = "\<lambda>u. (Chan 7, \<lparr>Context = WithTraceID ?c u, Call = OtherCall ''PictureResponse''\<rparr>)"
  define s1 where "s1 = blue_on_air
      \<lparr>world := (world blue_on_air)
         \<lparr>uuids_drawn := 2, sent := [?m ''uuid0'', ?t ''uuid1'']\<rparr>,
       invoked := [BroadcastMerges (WithTraceID ?c ''uuid0''),
                   BroadcastThreats (WithTraceID ?c ''uuid1'')]\<rparr>"
  define s2 where "s2 = blue_on_air
      \<lparr>world := (world blue_on_air)
         \<lparr>ctl := (ctl (world blue_on_air))\<lparr>pictureBroadcastDeadline := 100 + 120 * Second\<rparr>,
          uuids_drawn := 5,
          sent := [?m ''uuid0'', ?t ''uuid1'', ?m ''uuid2'', ?t ''uuid3'', ?p ''uuid4'']\<rparr>,
       invoked := [BroadcastMerges (WithTraceID ?c ''uuid0''),
                   BroadcastThreats (WithTraceID ?c ''uuid1''),
                   BroadcastMerges (WithTraceID ?c ''uuid2''),
                   BroadcastThreats (WithTraceID ?c ''uuid3''),
                   BroadcastPicture (WithTraceID ?c ''uuid4'') GlobalLogger False]\<rparr>"
  define s3 where "s3 = s2
      \<lparr>world := (world s2)
         \<lparr>uuids_drawn := 7, sent := sent (world s2) @ [?m ''uuid5'', ?t ''uuid6'']\<rparr>,
       invoked := invoked s2 @ [BroadcastMerges (WithTraceID ?c ''uuid5''),
                   BroadcastThreats (WithTraceID ?c ''uuid6'')]\<rparr>"
  have t1: "tick ?e ?c 100 blue_on_air = s1"
    by (simp add: Run_ticks_merges_threats_picture [THEN conjunct1]
        s1_def announcing_env_def announce_sends Let_def decimal_digits
        blue_on_air_def blue_world_def blue_controller_def eval_nat_numeral)
  have t2: "tick ?e ?c 101 s1 = s2"
    by (simp add: Run_ticks_merges_threats_picture [THEN conjunct1]
        s1_def s2_def announcing_env_def announce_sends Let_def decimal_digits
        blue_on_air_def blue_world_def blue_controller_def eval_nat_numeral)
  have t3: "tick ?e ?c 102 s2 = s3"
    by (simp add: Run_ticks_merges_threats_picture [THEN conjunct1]
        s3_def s2_def announcing_env_def announce_sends Let_def decimal_digits
        blue_on_air_def blue_world_def blue_controller_def Second_def eval_nat_numeral)
  have run: "Run_loop ?e ?c [Tick 100, Tick 101, Tick 102, Done, Tick 103] blue_on_air =
      cancelled s3"
    by (simp add: t1 t2 t3)
  show ?thesis
    unfolding run by (simp add: cancelled_keeps s3_def s2_def ticks_taken_def)
qed
text \<open>
  C3, as amended. On a tick the automatic picture broadcast is attempted exactly when, at
  the check that follows the merge and threat broadcasts, \<open>enableAutomaticPicture\<close> is
  true and the current time is strictly after \<open>pictureBroadcastDeadline\<close>: then the
  state after the tick is what \<open>broadcastPicture\<close> makes of the state the two broadcasts
  left, and otherwise it is that state itself. At the instant of the deadline the picture
  broadcast is not attempted.
\<close>

theorem automatic_picture_only_after_deadline:
  "tick e ctx now rs =
     (let rs1 = merges_then_threats e ctx rs;
          w = world rs1;
          ctx3 = WithTraceID ctx (shortuuid_New e (uuids_drawn w))
      in if enableAutomaticPicture (ctl w) \<and> pictureBroadcastDeadline (ctl w) < now
         then rs1\<lparr>world := broadcastPicture e ctx3 GlobalLogger False
                               (w\<lparr>uuids_drawn := Suc (uuids_drawn w)\<rparr>),
                   invoked := invoked rs1 @ [BroadcastPicture ctx3 GlobalLogger False]\<rparr>
         else rs1)
   \<and> (now = pictureBroadcastDeadline (ctl (world (merges_then_threats e ctx rs))) \<longrightarrow>
        tick e ctx now rs = merges_then_threats e ctx rs)"
proof (intro conjI impI)
  show "tick e ctx now rs =
     (let rs1 = merges_then_threats e ctx rs;
          w = world rs1;
          ctx3 = WithTraceID ctx (shortuuid_New e (uuids_drawn w))
      in if enableAutomaticPicture (ctl w) \<and> pictureBroadcastDeadline (ctl w) < now
         then rs1\<lparr>world := broadcastPicture e ctx3 GlobalLogger False
                               (w\<lparr>uuids_drawn := Suc (uuids_drawn w)\<rparr>),
                   invoked := invoked rs1 @ [BroadcastPicture ctx3 GlobalLogger False]\<rparr>
         else rs1)"
    by (rule tick_after_merges_then_threats)
next
  assume "now = pictureBroadcastDeadline (ctl (world (merges_then_threats e ctx rs)))"
  then show "tick e ctx now rs = merges_then_threats e ctx rs"
    by (simp add: tick_def picture_due_def After_def Let_def)
qed

lemma blue_on_air_calls: "calls (ctl (world blue_on_air)) = Some (Chan 7)"
  by (simp add: blue_on_air_def)

lemma merges_then_threats_on_air:
  "merges_then_threats announcing_env (Ctx 0) blue_on_air = blue_on_air
      \<lparr>world := (world blue_on_air)
         \<lparr>uuids_drawn := 2,
          sent := [(Chan 7, \<lparr>Context = WithTraceID (Ctx 0) ''uuid0'',
                             Call = OtherCall ''MergedCall''\<rparr>),
                   (Chan 7, \<lparr>Context = WithTraceID (Ctx 0) ''uuid1'',
                             Call = OtherCall ''ThreatCall''\<rparr>)]\<rparr>,
       invoked := [BroadcastMerges (WithTraceID (Ctx 0) ''uuid0''),
                   BroadcastThreats (WithTraceID (Ctx 0) ''uuid1'')]\<rparr>"
  unfolding merges_then_threats_announcing [OF blue_on_air_calls]
  by (simp add: decimal_digits blue_on_air_def blue_world_def numeral_2_eq_2)

theorem automatic_picture_only_after_deadline_witness:
  "pictureBroadcastDeadline (ctl (world (merges_then_threats announcing_env (Ctx 0) blue_on_air)))
     = 100
   \<and> tick announcing_env (Ctx 0) 100 blue_on_air =
       merges_then_threats announcing_env (Ctx 0) blue_on_air
   \<and> sent (world (tick announcing_env (Ctx 0) 101 blue_on_air)) =
       sent (world (merges_then_threats announcing_env (Ctx 0) blue_on_air)) @
         [(Chan 7, \<lparr>Context = WithTraceID (Ctx 0) ''uuid2'',
                    Call = OtherCall ''PictureResponse''\<rparr>)]
   \<and> invoked (tick announcing_env (Ctx 0) 101 blue_on_air) =
       invoked (merges_then_threats announcing_env (Ctx 0) blue_on_air) @
         [BroadcastPicture (WithTraceID (Ctx 0) ''uuid2'') GlobalLogger False]"
proof -
  let ?m = "merges_then_threats announcing_env (Ctx 0) blue_on_air"
  have d: "pictureBroadcastDeadline (ctl (world ?m)) = 100"
    and en: "enableAutomaticPicture (ctl (world ?m))"
    and u: "uuids_drawn (world ?m) = 2"
    and ch: "calls (ctl (world ?m)) = Some (Chan 7)"
    unfolding merges_then_threats_on_air
    by (simp_all add: blue_on_air_def blue_world_def blue_controller_def)
  have at: "tick announcing_env (Ctx 0) 100 blue_on_air = ?m"
    using automatic_picture_only_after_deadline [of announcing_env "Ctx 0" 100 blue_on_air] d
    by simp
  have after: "tick announcing_env (Ctx 0) 101 blue_on_air =
      ?m\<lparr>world := broadcastPicture announcing_env (WithTraceID (Ctx 0) ''uuid2'')
                       GlobalLogger False ((world ?m)\<lparr>uuids_drawn := 3\<rparr>),
         invoked := invoked ?m @
           [BroadcastPicture (WithTraceID (Ctx 0) ''uuid2'') GlobalLogger False]\<rparr>"
    using automatic_picture_only_after_deadline
      [of announcing_env "Ctx 0" 101 blue_on_air, THEN conjunct1] d en u
    by (simp add: Let_def decimal_digits) (simp add: announcing_env_def decimal_digits)
  have pic: "sent (world (tick announcing_env (Ctx 0) 101 blue_on_air)) =
      sent (world ?m) @
        [(Chan 7, \<lparr>Context = WithTraceID (Ctx 0) ''uuid2'',
                   Call = OtherCall ''PictureResponse''\<rparr>)]"
    unfolding after using ch by (simp add: announcing_env_def announce_sends)
  from d at pic after show ?thesis by simp
qed

text \<open>
  C3 as stated fails at its boundary: with automatic pictures enabled and the current time
  equal to the deadline, the tick makes the merge and threat broadcasts and no picture
  broadcast: only their two calls are sent.
\<close>

theorem no_automatic_picture_at_deadline:
  "enableAutomaticPicture
     (ctl (world (merges_then_threats announcing_env (Ctx 0) blue_on_air)))
   \<and> pictureBroadcastDeadline
       (ctl (world (merges_then_threats announcing_env (Ctx 0) blue_on_air))) = 100
   \<and> (100::int) \<ge> 100
   \<and> invoked (tick announcing_env (Ctx 0) 100 blue_on_air) =
       [BroadcastMerges (WithTraceID (Ctx 0) ''uuid0''),
        BroadcastThreats (WithTraceID (Ctx 0) ''uuid1'')]
   \<and> sent (world (tick announcing_env (Ctx 0) 100 blue_on_air)) =
       [(Chan 7, \<lparr>Context = WithTraceID (Ctx 0) ''uuid0'', Call = OtherCall ''MergedCall''\<rparr>),
        (Chan 7, \<lparr>Context = WithTraceID (Ctx 0) ''uuid1'', Call = OtherCall ''ThreatCall''\<rparr>)]"
proof -
  let ?m = "merges_then_threats announcing_env (Ctx 0) blue_on_air"
  have d: "pictureBroadcastDeadline (ctl (world ?m)) = 100"
    and en: "enableAutomaticPicture (ctl (world ?m))"
    and inv: "invoked ?m = [BroadcastMerges (WithTraceID (Ctx 0) ''uuid0''),
        BroadcastThreats (WithTraceID (Ctx 0) ''uuid1'')]"
    and s: "sent (world ?m) =
       [(Chan 7, \<lparr>Context = WithTraceID (Ctx 0) ''uuid0'', Call = OtherCall ''MergedCall''\<rparr>),
        (Chan 7, \<lparr>Context = WithTraceID (Ctx 0) ''uuid1'', Call = OtherCall ''ThreatCall''\<rparr>)]"
    unfolding merges_then_threats_on_air
    by (simp_all add: blue_on_air_def blue_world_def blue_controller_def)
  have "tick announcing_env (Ctx 0) 100 blue_on_air = ?m"
    using d by (simp add: tick_def picture_due_def After_def Let_def)
  with d en inv s show ?thesis by simp
qed




text \<open>
  C5. When the select yields the cancellation, \<open>Run\<close> sets the faded, removed and
  started callbacks of the scope to nil and returns: nothing is sent and no broadcast
  method is called beyond what the ticks before it did, and what the select would have
  yielded afterwards has no effect.
\<close>

theorem Run_cancelled:
  assumes "Done \<notin> set pre"
  shows "Run_loop e ctx (pre @ Done # es) rs = Run_loop e ctx (pre @ [Done]) rs
     \<and> returned (Run_loop e ctx (pre @ Done # es) rs)
     \<and> FadedCallback (scope (ctl (world (Run_loop e ctx (pre @ Done # es) rs)))) = None
     \<and> RemovedCallback (scope (ctl (world (Run_loop e ctx (pre @ Done # es) rs)))) = None
     \<and> StartedCallback (scope (ctl (world (Run_loop e ctx (pre @ Done # es) rs)))) = None
     \<and> sent (world (Run_loop e ctx (pre @ Done # es) rs)) =
         sent (world (Run_loop e ctx pre rs))
     \<and> invoked (Run_loop e ctx (pre @ Done # es) rs) = invoked (Run_loop e ctx pre rs)
     \<and> ticker (Run_loop e ctx (pre @ Done # es) rs) =
         map_option Stop (ticker (Run_loop e ctx pre rs))"
  using assms
  by (simp add: Run_loop_append cancelled_def Let_def log_msg_def with_scope_def
      SetFadedCallback_def SetRemovedCallback_def SetStartedCallback_def)

theorem Run_cancelled_witness:
  "Run_loop idle_env (Ctx 0) ([Tick 101] @ Done # [Tick 200, Done]) blue_running =
     Run_loop idle_env (Ctx 0) ([Tick 101] @ [Done]) blue_running
   \<and> returned (Run_loop idle_env (Ctx 0) ([Tick 101] @ Done # [Tick 200, Done]) blue_running)
   \<and> map action_of
       (invoked (Run_loop idle_env (Ctx 0) ([Tick 101] @ Done # [Tick 200, Done]) blue_running))
       = [Merges, Threats, Picture]"
proof -
  have h: "Done \<notin> set [Tick 101]" by simp
  show ?thesis
    using Run_cancelled [OF h, of idle_env "Ctx 0" "[Tick 200, Done]" blue_running]
    by (simp add: tick_def merges_then_threats_def automatic_picture_def
        picture_due_def After_def new_uuid_def Let_def idle_env_def
        blue_running_def blue_world_def blue_controller_def)
qed

text \<open>
  C6. \<open>findCallsign\<close> answers true exactly when the scope finds a trackfile whose last
  known point is not zero. Without a trackfile it answers the empty callsign, nil and
  false; with a trackfile whose last known point is zero, the callsign found, the
  trackfile and false.
\<close>

theorem findCallsign_results:
  "(snd (snd (fst (findCallsign c cs))) \<longleftrightarrow>
      (\<exists>tf. snd (FindCallsign (scope c) cs (coalition c)) = Some tf
         \<and> \<not> IsLastKnownPointZero tf))
   \<and> (snd (FindCallsign (scope c) cs (coalition c)) = None \<longrightarrow>
        fst (findCallsign c cs) = ('''', None, False))
   \<and> (FindCallsign (scope c) cs (coalition c) = (found, Some tf) \<longrightarrow>
        fst (findCallsign c cs) = (found, Some tf, \<not> IsLastKnownPointZero tf))"
  by (cases "FindCallsign (scope c) cs (coalition c)")
    (auto simp: findCallsign_def Let_def split: option.splits)

theorem findCallsign_results_witness:
  "fst (findCallsign blue_controller ''ghost 4'') = ('''', None, False)
   \<and> fst (findCallsign blue_controller ''viper 2'') = (''Viper 2'', Some viper, False)
   \<and> fst (findCallsign blue_controller ''eagle 11'') = (''Eagle 1 1'', Some eagle, True)"
  using findCallsign_results [of blue_controller "''ghost 4''" "''''" eagle]
        findCallsign_results [of blue_controller "''viper 2''" "''Viper 2''" viper]
        findCallsign_results [of blue_controller "''eagle 11''" "''Eagle 1 1''" eagle]
  by (simp add: blue_controller_def blue_scope_def eagle_def viper_def)


section \<open>The composer\<close>




text \<open>Each reply template, formatted with one string, is that string and a fixed rest.\<close>

lemma replies_formatted:
  "\<forall>t \<in> set replies. \<exists>rest.
     Sprintf t [StringArg s] = s @ '', negative radar contact'' @ rest"
  by (simp add: replies_def)

lemma rand_IntN_replies: "rand_IntN r (length replies) < length replies"
  by (simp add: rand_IntN_def replies_def)

















text \<open>
  C8, as amended. \<open>ComposeNegativeRadarContactResponse\<close> formats one of its thirteen
  templates, drawn at random, with the composed callsign of the requester: the reply
  begins with that composed callsign followed by ", negative radar contact", and subtitle
  and speech are equal. \<open>ComposeAlphaCheckResponse\<close>, for a response with status false,
  answers one fixed reply instead, the callsign followed by ", negative contact", in
  subtitle and speech alike.
\<close>

theorem negative_contact_replies:
  "Subtitle (ComposeNegativeRadarContactResponse d n resp) =
     Speech (ComposeNegativeRadarContactResponse d n resp)
   \<and> (\<exists>t \<in> set replies. Speech (ComposeNegativeRadarContactResponse d n resp) =
         Sprintf t [StringArg (ComposeCallsigns d [NegativeRadarContactResponse.Callsign resp])])
   \<and> prefix (ComposeCallsigns d [NegativeRadarContactResponse.Callsign resp]
               @ '', negative radar contact'')
        (Speech (ComposeNegativeRadarContactResponse d n resp))
   \<and> (\<not> Status r \<longrightarrow>
        ComposeAlphaCheckResponse d c r =
          ([], \<lparr>Subtitle = AlphaCheckResponse.Callsign r @ '', negative contact'',
                 Speech = AlphaCheckResponse.Callsign r @ '', negative contact''\<rparr>))"
proof -
  let ?cc = "ComposeCallsigns d [NegativeRadarContactResponse.Callsign resp]"
  let ?t = "replies ! rand_IntN n (length replies)"
  have mem: "?t \<in> set replies"
    using rand_IntN_replies by (rule nth_mem)
  have sp: "Speech (ComposeNegativeRadarContactResponse d n resp) = Sprintf ?t [StringArg ?cc]"
    by (simp add: ComposeNegativeRadarContactResponse_def Let_def)
  from mem replies_formatted [of ?cc] obtain rest where
    "Sprintf ?t [StringArg ?cc] = ?cc @ '', negative radar contact'' @ rest"
    by blast
  then have pre: "prefix (?cc @ '', negative radar contact'')
      (Speech (ComposeNegativeRadarContactResponse d n resp))"
    using sp by (simp add: prefix_def)
  have eq: "Subtitle (ComposeNegativeRadarContactResponse d n resp) =
      Speech (ComposeNegativeRadarContactResponse d n resp)"
    by (simp add: ComposeNegativeRadarContactResponse_def Let_def)
  have alpha: "\<not> Status r \<longrightarrow>
        ComposeAlphaCheckResponse d c r =
          ([], \<lparr>Subtitle = AlphaCheckResponse.Callsign r @ '', negative contact'',
                 Speech = AlphaCheckResponse.Callsign r @ '', negative contact''\<rparr>)"
    by (simp add: ComposeAlphaCheckResponse_def Let_def)
  from eq mem sp pre alpha show ?thesis by blast
qed

theorem negative_contact_replies_witness:
  "Speech (ComposeNegativeRadarContactResponse plain_deps 27
     \<lparr>NegativeRadarContactResponse.Callsign = ''Ghost 4''\<rparr>) =
     ''Ghost 4, negative radar contact. Check your callsign.''
   \<and> ComposeAlphaCheckResponse plain_deps skyeye
       \<lparr>AlphaCheckResponse.Callsign = ''Ghost 4'', Status = False,
        Location = \<lparr>Bearing = (0, True), Distance = 0\<rparr>\<rparr> =
       ([], \<lparr>Subtitle = ''Ghost 4, negative contact'',
              Speech = ''Ghost 4, negative contact''\<rparr>)"
  using negative_contact_replies [of plain_deps 27
      "\<lparr>NegativeRadarContactResponse.Callsign = ''Ghost 4''\<rparr>"
      "\<lparr>AlphaCheckResponse.Callsign = ''Ghost 4'', Status = False,
        Location = \<lparr>Bearing = (0, True), Distance = 0\<rparr>\<rparr>" skyeye]
  by (simp add: ComposeNegativeRadarContactResponse_def Let_def rand_IntN_def replies_def
      plain_deps_def)

text \<open>
  C8 as stated fails on the failure branch of \<open>ComposeAlphaCheckResponse\<close>: the reply
  for Ghost 4 is "Ghost 4, negative contact", which does not begin with
  "Ghost 4, negative radar contact".
\<close>

theorem alpha_check_failure_reply_not_a_variant:
  "Speech (snd (ComposeAlphaCheckResponse plain_deps skyeye
     \<lparr>AlphaCheckResponse.Callsign = ''Ghost 4'', Status = False,
      Location = \<lparr>Bearing = (0, True), Distance = 0\<rparr>\<rparr>)) = ''Ghost 4, negative contact''
   \<and> \<not> prefix ''Ghost 4, negative radar contact''
        (Speech (snd (ComposeAlphaCheckResponse plain_deps skyeye
           \<lparr>AlphaCheckResponse.Callsign = ''Ghost 4'', Status = False,
            Location = \<lparr>Bearing = (0, True), Distance = 0\<rparr>\<rparr>)))"
  by (simp add: ComposeAlphaCheckResponse_def Let_def)





end
